theory Spec2Isabelle
  imports Main "HOL-Library.Sublist"
begin

section \<open>The launch layer of neurotic (\<^verbatim>\<open>neurotic/scripts.py\<close>)\<close>

text \<open>
  The module parses the command line, sets two logging levels, and then either starts the
  Qt application or starts a Jupyter server. Everything it does beyond that is a call
  into code outside the module (Qt, the configurator, the data loader, \<^verbatim>\<open>subprocess\<close>,
  \<^verbatim>\<open>pkg_resources\<close>). The embedding keeps the module's own control flow and makes
  every outside call explicit:
  \<^item> a Python exception is a value of \<open>py_exc\<close>, and a computation returns \<open>py_exc + 'a\<close>;
  \<^item> the module's effects are a state: the two logger levels it writes, the list of
    calls it has made to the outside (the trace), in order, and the list of those calls
    that raised, each with its exception;
  \<^item> what an outside call answers is given by a \<open>world\<close>, which may answer differently
    depending on everything that was called before.
\<close>

subsection \<open>Values, exceptions, events\<close>

text \<open>An object that lives outside the module (a window, a block, a metadata dictionary) is
  only ever passed on, so it is a reference.\<close>

type_synonym obj = nat

datatype py_exc = FileNotFoundError | SystemExit int | Other_exception string

text \<open>A value that argparse stores in the namespace for an argument that is not a flag:
  \<^verbatim>\<open>None\<close>, a string, or (what it stores when one action is given several strings) a
  list of strings.\<close>

datatype py_value = PyNone | PyStr string | PyList "string list"

text \<open>The \<^verbatim>\<open>Namespace\<close> that \<^verbatim>\<open>parser.parse_args\<close> returns. The attribute
  \<^verbatim>\<open>launch_example_notebook\<close> is the field \<open>launch_example_notebook_arg\<close>, since the
  module also has a function of that name.\<close>

record args =
  "file" :: py_value
  dataset :: py_value
  debug :: bool
  lazy :: bool
  thick_traces :: bool
  show_datetime :: bool
  ui_scale :: py_value
  theme :: py_value
  launch_example_notebook_arg :: bool

text \<open>The keyword arguments of \<^verbatim>\<open>MainWindow(...)\<close>.\<close>

record main_window_kwargs =
  kw_file :: py_value
  kw_initial_selection :: py_value
  kw_lazy :: bool
  kw_theme :: py_value
  kw_ui_scale :: py_value
  kw_support_increased_line_width :: bool
  kw_show_datetime :: bool

text \<open>One event per call that leaves the module, with the arguments passed.
  \<open>Call_parse_args\<close> is \<^verbatim>\<open>parser.parse_args\<close>; the three \<open>Logger_\<close> events are the
  calls \<^verbatim>\<open>logger.debug\<close>, \<^verbatim>\<open>logger.info\<close> and \<^verbatim>\<open>logger.error\<close>. \<open>Call_Popen\<close> stands for the whole expression
  \<^verbatim>\<open>subprocess.Popen(args, stdout=subprocess.PIPE).communicate()[0]\<close>.\<close>

datatype event =
    Call_parse_args "string list"
  | Logger_debug string
  | Logger_info string
  | Logger_error string
  | Call_resource_filename string string
  | Call_Popen "string list"
  | Call_mkQApp
  | Call_QPixmap string
  | Call_QSplashScreen obj
  | Call_MainWindow main_window_kwargs
  | Call_show obj
  | Call_finish obj obj
  | Call_exec obj
  | Call_load_dataset obj obj bool
  | Call_EphyviewerConfigurator obj obj bool
  | Call_show_all obj
  | Call_launch_ephyviewer obj

text \<open>The outside of the module. \<open>default_log_level\<close>, \<open>available_ui_scales\<close> and
  \<open>available_themes\<close> are the constants the module imports from the package; each
  \<open>ext_\<close> field is what an outside call answers (an exception or a value), given its
  arguments and the calls made so far.\<close>

record world =
  default_log_level :: int
  available_ui_scales :: "string list"
  available_themes :: "string list"
  ext_resource_filename :: "string \<Rightarrow> string \<Rightarrow> event list \<Rightarrow> py_exc + string"
  ext_Popen :: "string list \<Rightarrow> event list \<Rightarrow> py_exc + string"
  ext_mkQApp :: "event list \<Rightarrow> py_exc + obj"
  ext_QPixmap :: "string \<Rightarrow> event list \<Rightarrow> py_exc + obj"
  ext_QSplashScreen :: "obj \<Rightarrow> event list \<Rightarrow> py_exc + obj"
  ext_MainWindow :: "main_window_kwargs \<Rightarrow> event list \<Rightarrow> py_exc + obj"
  ext_show :: "obj \<Rightarrow> event list \<Rightarrow> py_exc + unit"
  ext_finish :: "obj \<Rightarrow> obj \<Rightarrow> event list \<Rightarrow> py_exc + unit"
  ext_exec :: "obj \<Rightarrow> event list \<Rightarrow> py_exc + unit"
  ext_load_dataset :: "obj \<Rightarrow> obj \<Rightarrow> bool \<Rightarrow> event list \<Rightarrow> py_exc + obj"
  ext_EphyviewerConfigurator :: "obj \<Rightarrow> obj \<Rightarrow> bool \<Rightarrow> event list \<Rightarrow> py_exc + obj"
  ext_show_all :: "obj \<Rightarrow> event list \<Rightarrow> py_exc + unit"
  ext_launch_ephyviewer :: "obj \<Rightarrow> event list \<Rightarrow> py_exc + unit"

text \<open>The state the module writes: the level of \<^verbatim>\<open>logger.parent\<close>, the level of the
  logger \<^verbatim>\<open>'libav'\<close>, and the trace. \<open>raised\<close> keeps every outside call that raised,
  with its exception, whether or not the module caught it.\<close>

record state =
  trace :: "event list"
  raised :: "(event \<times> py_exc) list"
  parent_level :: int
  libav_level :: int

subsection \<open>Computations that may raise\<close>

type_synonym 'a py = "state \<Rightarrow> (py_exc + 'a) \<times> state"

definition py_return :: "'a \<Rightarrow> 'a py" where
  "py_return x s = (Inr x, s)"

text \<open>Sequencing: an exception ends the computation, and the effects made so far stay.\<close>

definition py_bind :: "'a py \<Rightarrow> ('a \<Rightarrow> 'b py) \<Rightarrow> 'b py" where
  "py_bind m f s = (case m s of (Inl e, s') \<Rightarrow> (Inl e, s') | (Inr x, s') \<Rightarrow> f x s')"

text \<open>\<^verbatim>\<open>try: m  except FileNotFoundError: h\<close>. Every other exception passes through.\<close>

definition try_except_FileNotFoundError :: "'a py \<Rightarrow> 'a py \<Rightarrow> 'a py" where
  "try_except_FileNotFoundError m h s =
     (case m s of (Inl FileNotFoundError, s') \<Rightarrow> h s' | r \<Rightarrow> r)"

text \<open>A call to the outside: the world answers from the calls made so far, and the call is
  appended to the trace whether it raises or returns.\<close>

definition call :: "(event list \<Rightarrow> py_exc + 'a) \<Rightarrow> event \<Rightarrow> 'a py" where
  "call answer ev s =
     (case answer (trace s) of
        Inl e \<Rightarrow> (Inl e, s\<lparr>trace := trace s @ [ev], raised := raised s @ [(ev, e)]\<rparr>)
      | Inr x \<Rightarrow> (Inr x, s\<lparr>trace := trace s @ [ev]\<rparr>))"

definition logger_call :: "event \<Rightarrow> unit py" where
  "logger_call ev s = (Inr (), s\<lparr>trace := trace s @ [ev]\<rparr>)"

definition logger_debug :: "string \<Rightarrow> unit py" where
  "logger_debug msg = logger_call (Logger_debug msg)"

definition logger_info :: "string \<Rightarrow> unit py" where
  "logger_info msg = logger_call (Logger_info msg)"

definition logger_error :: "string \<Rightarrow> unit py" where
  "logger_error msg = logger_call (Logger_error msg)"

text \<open>The levels of the \<^verbatim>\<open>logging\<close> module that the code names.\<close>

definition DEBUG :: int where "DEBUG = 10"
definition WARNING :: int where "WARNING = 30"
definition CRITICAL :: int where "CRITICAL = 50"

definition parent_setLevel :: "int \<Rightarrow> unit py" where
  "parent_setLevel l s = (Inr (), s\<lparr>parent_level := l\<rparr>)"

definition libav_setLevel :: "int \<Rightarrow> unit py" where
  "libav_setLevel l s = (Inr (), s\<lparr>libav_level := l\<rparr>)"

subsection \<open>The argument parser that \<open>parse_args\<close> configures\<close>

text \<open>
  Lines 38 to 106 of the module build an \<^verbatim>\<open>argparse.ArgumentParser\<close>; line 108 runs it.
  The parser is modelled as the table of its actions, in the order the code adds them,
  and \<^verbatim>\<open>ArgumentParser.parse_args\<close> as a function over that table which follows the
  algorithm of the standard library (CPython 3.11) for the constructs the table uses:
  option strings given in full, abbreviated to an unambiguous prefix or joined to a value
  with \<^verbatim>\<open>=\<close>; the two optional positionals; \<^verbatim>\<open>--\<close>; mutually exclusive groups;
  \<^verbatim>\<open>choices\<close>; and the actions \<^verbatim>\<open>help\<close> and \<^verbatim>\<open>version\<close>, which exit.
  The parser either returns a namespace or raises \<^verbatim>\<open>SystemExit\<close> (status 0 after help or
  version, status 2 after an error); the text it prints first is not modelled.
  Characters are bytes, so a digit is an ASCII digit.
\<close>

text \<open>An optional action: \<^verbatim>\<open>help\<close> (which the parser adds by itself), \<^verbatim>\<open>version\<close>,
  \<^verbatim>\<open>store_true\<close>/\<^verbatim>\<open>store_false\<close> (no argument; with the number of its mutually
  exclusive group and the assignment it makes), or \<^verbatim>\<open>store\<close> (one argument; with its
  \<^verbatim>\<open>choices\<close> and the assignment).\<close>

datatype action =
    Help_action
  | Version_action
  | Store_const "nat option" "args \<Rightarrow> args"
  | Store "string list" "py_value \<Rightarrow> args \<Rightarrow> args"

text \<open>Lines 61 to 106. The default \<^verbatim>\<open>-h/--help\<close> comes first, as the constructor of the
  parser adds it.\<close>

definition optionals :: "world \<Rightarrow> (string list \<times> action) list" where
  "optionals w =
    [([''-h'', ''--help''], Help_action),
     ([''-V'', ''--version''], Version_action),
     ([''--debug''], Store_const (Some 0) (\<lambda>a. a\<lparr>debug := True\<rparr>)),
     ([''--no-debug''], Store_const (Some 0) (\<lambda>a. a\<lparr>debug := False\<rparr>)),
     ([''--lazy''], Store_const (Some 1) (\<lambda>a. a\<lparr>lazy := True\<rparr>)),
     ([''--no-lazy''], Store_const (Some 1) (\<lambda>a. a\<lparr>lazy := False\<rparr>)),
     ([''--thick-traces''], Store_const (Some 2) (\<lambda>a. a\<lparr>thick_traces := True\<rparr>)),
     ([''--no-thick-traces''], Store_const (Some 2) (\<lambda>a. a\<lparr>thick_traces := False\<rparr>)),
     ([''--show-datetime''], Store_const (Some 3) (\<lambda>a. a\<lparr>show_datetime := True\<rparr>)),
     ([''--no-show-datetime''], Store_const (Some 3) (\<lambda>a. a\<lparr>show_datetime := False\<rparr>)),
     ([''--ui-scale''], Store (available_ui_scales w) (\<lambda>v a. a\<lparr>ui_scale := v\<rparr>)),
     ([''--theme''], Store (available_themes w) (\<lambda>v a. a\<lparr>theme := v\<rparr>)),
     ([''--launch-example-notebook''],
        Store_const None (\<lambda>a. a\<lparr>launch_example_notebook_arg := True\<rparr>))]"

text \<open>The namespace before any argument is read. The first eight values are the dictionary
  \<^verbatim>\<open>defaults\<close> of lines 40 to 49, which \<^verbatim>\<open>set_defaults\<close> makes the default of every
  action added later with that \<^verbatim>\<open>dest\<close>; \<^verbatim>\<open>launch_example_notebook\<close> is not in the
  dictionary and gets the default of \<^verbatim>\<open>store_true\<close>.\<close>

definition defaults :: args where
  "defaults =
    \<lparr>file = PyNone, dataset = PyNone, debug = False, lazy = True, thick_traces = False,
     show_datetime = False, ui_scale = PyStr ''medium'', theme = PyStr ''light'',
     launch_example_notebook_arg = False\<rparr>"

text \<open>Lines 52 to 59: the positionals \<^verbatim>\<open>file\<close> and \<^verbatim>\<open>dataset\<close>, both with
  \<^verbatim>\<open>nargs='?'\<close>, each given as its default and the assignment it makes.\<close>

definition positionals :: "(py_value \<times> (py_value \<Rightarrow> args \<Rightarrow> args)) list" where
  "positionals =
     [(file defaults, \<lambda>v a. a\<lparr>file := v\<rparr>), (dataset defaults, \<lambda>v a. a\<lparr>dataset := v\<rparr>)]"

text \<open>\<^verbatim>\<open>parser._option_string_actions\<close>: every option string with its action. An action
  is told from another by its first option string.\<close>

definition option_string_actions :: "world \<Rightarrow> (string \<times> string \<times> action) list" where
  "option_string_actions w =
     concat (map (\<lambda>(names, a). map (\<lambda>n. (n, hd names, a)) names) (optionals w))"

fun startswith :: "string \<Rightarrow> string \<Rightarrow> bool" where
  "startswith s [] = True"
| "startswith [] (p # ps) = False"
| "startswith (c # cs) (p # ps) = (c = p \<and> startswith cs ps)"

text \<open>\<^verbatim>\<open>s.partition('=')\<close>: the text before the first \<^verbatim>\<open>=\<close>, and the text after it when
  there is one.\<close>

definition partition_eq :: "string \<Rightarrow> string \<times> string option" where
  "partition_eq s =
     (if CHR ''='' \<in> set s
      then (takeWhile (\<lambda>c. c \<noteq> CHR ''='') s, Some (tl (dropWhile (\<lambda>c. c \<noteq> CHR ''='') s)))
      else (s, None))"

definition is_digit :: "char \<Rightarrow> bool" where
  "is_digit c = (c \<in> set ''0123456789'')"

text \<open>\<^verbatim>\<open>_negative_number_matcher\<close>, the expression \<^verbatim>\<open>^-\d+$|^-\d*\.\d+$\<close>; its \<^verbatim>\<open>$\<close>
  also matches before a final newline.\<close>

definition negative_number_like :: "string \<Rightarrow> bool" where
  "negative_number_like s =
     (let t = (if s \<noteq> [] \<and> last s = CHR 0x0A then butlast s else s) in
      case t of
        [] \<Rightarrow> False
      | c # r \<Rightarrow>
          c = CHR ''-'' \<and>
          ((r \<noteq> [] \<and> list_all is_digit r) \<or>
           (case dropWhile is_digit r of
              [] \<Rightarrow> False
            | p # f \<Rightarrow> p = CHR ''.'' \<and> f \<noteq> [] \<and> list_all is_digit f)))"

text \<open>What \<^verbatim>\<open>_parse_optional\<close> returns for an option: the action (with its name) when
  there is one, the option string, whether a separator \<^verbatim>\<open>=\<close> was written, and the
  explicit argument when one is joined to the option.\<close>

type_synonym option_tuple = "(string \<times> action) option \<times> string \<times> bool \<times> string option"

text \<open>\<^verbatim>\<open>_get_option_tuples\<close>, called on strings of at least two characters that start
  with \<^verbatim>\<open>-\<close>.\<close>

definition get_option_tuples :: "world \<Rightarrow> string \<Rightarrow> option_tuple list" where
  "get_option_tuples w option_string =
     (if option_string ! 1 = CHR ''-''
      then (case partition_eq option_string of
              (option_prefix, explicit_arg) \<Rightarrow>
                map (\<lambda>(s, a). (Some a, s, explicit_arg \<noteq> None, explicit_arg))
                  (filter (\<lambda>(s, a). startswith s option_prefix) (option_string_actions w)))
      else concat (map (\<lambda>(s, a).
              if s = take 2 option_string then [(Some a, s, False, Some (drop 2 option_string))]
              else if startswith s option_string then [(Some a, s, False, None)]
              else [])
            (option_string_actions w)))"

text \<open>\<^verbatim>\<open>_parse_optional\<close>: \<open>None\<close> for a positional, an option tuple for an option, and
  the exit of \<^verbatim>\<open>parser.error\<close> for an ambiguous abbreviation.\<close>

definition parse_optional :: "world \<Rightarrow> string \<Rightarrow> py_exc + option_tuple option" where
  "parse_optional w arg_string =
     (if arg_string = [] then Inr None
      else if hd arg_string \<noteq> CHR ''-'' then Inr None
      else (case map_of (option_string_actions w) arg_string of
        Some a \<Rightarrow> Inr (Some (Some a, arg_string, False, None))
      | None \<Rightarrow>
          (if length arg_string = 1 then Inr None
           else (case partition_eq arg_string of
            (option_string, explicit_arg) \<Rightarrow>
              (if explicit_arg \<noteq> None \<and> map_of (option_string_actions w) option_string \<noteq> None
               then Inr (Some (map_of (option_string_actions w) option_string, option_string,
                              True, explicit_arg))
               else (case get_option_tuples w arg_string of
                  [] \<Rightarrow>
                    (if negative_number_like arg_string then Inr None
                     else if CHR '' '' \<in> set arg_string then Inr None
                     else Inr (Some (None, arg_string, False, None)))
                | [t] \<Rightarrow> Inr (Some t)
                | t # u # ts \<Rightarrow> Inl (SystemExit 2)))))))"

text \<open>The pattern of the argument strings: \<open>Pat_A\<close> for an argument, \<open>Pat_O\<close> for an
  option, \<open>Pat_dash\<close> for the first \<^verbatim>\<open>--\<close>, after which every string is an argument.\<close>

datatype pattern = Pat_A | Pat_O option_tuple | Pat_dash

fun arg_strings_pattern :: "world \<Rightarrow> string list \<Rightarrow> py_exc + pattern list" where
  "arg_strings_pattern w [] = Inr []"
| "arg_strings_pattern w (s # ss) =
     (if s = ''--'' then Inr (Pat_dash # map (\<lambda>x. Pat_A) ss)
      else case parse_optional w s of
        Inl e \<Rightarrow> Inl e
      | Inr t \<Rightarrow>
          (case arg_strings_pattern w ss of
             Inl e \<Rightarrow> Inl e
           | Inr ps \<Rightarrow> Inr ((case t of None \<Rightarrow> Pat_A | Some tup \<Rightarrow> Pat_O tup) # ps)))"

text \<open>The state of \<^verbatim>\<open>_parse_known_args\<close>: the namespace, the positionals not yet
  consumed, the mutually exclusive actions seen so far (group and name), and the strings
  that no action took.\<close>

record parser_state =
  namespace :: args
  pending :: "(py_value \<times> (py_value \<Rightarrow> args \<Rightarrow> args)) list"
  seen_non_default :: "(nat \<times> string) list"
  extras :: "string list"

text \<open>\<^verbatim>\<open>_get_values\<close> for the two kinds of action that store what they are given. A
  positional with \<^verbatim>\<open>nargs='?'\<close> has the first \<^verbatim>\<open>--\<close> removed from its strings and
  gets its default when no string is left; one string is stored as it is, several as a
  list.\<close>

definition get_values :: "py_value \<Rightarrow> string list \<Rightarrow> py_value" where
  "get_values dflt arg_strings =
     (case remove1 ''--'' arg_strings of
        [] \<Rightarrow> dflt
      | [v] \<Rightarrow> PyStr v
      | v # v' # vs \<Rightarrow> PyList (v # v' # vs))"

text \<open>An option with \<^verbatim>\<open>nargs=None\<close> keeps every string; each is checked against
  \<^verbatim>\<open>choices\<close>.\<close>

definition get_option_values :: "string list \<Rightarrow> py_value" where
  "get_option_values arg_strings =
     (case arg_strings of [v] \<Rightarrow> PyStr v | vs \<Rightarrow> PyList vs)"

definition nargs :: "action \<Rightarrow> nat" where
  "nargs a = (case a of Store choices f \<Rightarrow> 1 | _ \<Rightarrow> 0)"

text \<open>\<^verbatim>\<open>take_action\<close> for an optional: the value is checked against \<^verbatim>\<open>choices\<close>, an
  action of a mutually exclusive group is refused when another action of its group was
  seen, and then the action runs. \<^verbatim>\<open>help\<close> and \<^verbatim>\<open>version\<close> print and exit.\<close>

definition take_action ::
  "string \<times> action \<Rightarrow> string list \<Rightarrow> parser_state \<Rightarrow> py_exc + parser_state" where
  "take_action na argument_strings st =
     (case snd na of
        Help_action \<Rightarrow> Inl (SystemExit 0)
      | Version_action \<Rightarrow> Inl (SystemExit 0)
      | Store_const g f \<Rightarrow>
          (case g of
             None \<Rightarrow> Inr (st\<lparr>namespace := f (namespace st)\<rparr>)
           | Some n \<Rightarrow>
               (if list_ex (\<lambda>(m, other). m = n \<and> other \<noteq> fst na) (seen_non_default st)
                then Inl (SystemExit 2)
                else Inr (st\<lparr>namespace := f (namespace st),
                              seen_non_default := (n, fst na) # seen_non_default st\<rparr>)))
      | Store choices f \<Rightarrow>
          (if list_all (\<lambda>v. v \<in> set choices) argument_strings
           then Inr (st\<lparr>namespace := f (get_option_values argument_strings) (namespace st)\<rparr>)
           else Inl (SystemExit 2)))"

fun take_actions ::
  "((string \<times> action) \<times> string list) list \<Rightarrow> parser_state \<Rightarrow> py_exc + parser_state" where
  "take_actions [] st = Inr st"
| "take_actions ((na, argument_strings) # ts) st =
     (case take_action na argument_strings st of
        Inl e \<Rightarrow> Inl e
      | Inr st' \<Rightarrow> take_actions ts st')"

text \<open>What \<^verbatim>\<open>consume_optional\<close> collects before it takes any action: the actions with
  their argument strings, the strings it adds to the extras, and how many of the strings
  after the option it uses.\<close>

type_synonym action_tuples = "((string \<times> action) \<times> string list) list \<times> string list \<times> nat"

text \<open>An option without an explicit argument takes its arguments from the strings that
  follow: \<^verbatim>\<open>store\<close> needs the next string to be an argument, the others take none.\<close>

definition match_following ::
  "string \<times> action \<Rightarrow> (string \<times> pattern) list \<Rightarrow> py_exc + action_tuples" where
  "match_following na rest =
     (if nargs (snd na) = 1
      then (case rest of
              (s, Pat_A) # others \<Rightarrow> Inr ([(na, [s])], [], 1)
            | _ \<Rightarrow> Inl (SystemExit 2))
      else Inr ([(na, [])], [], 0))"

definition also_action ::
  "(string \<times> action) \<times> string list \<Rightarrow> py_exc + action_tuples \<Rightarrow> py_exc + action_tuples" where
  "also_action t r =
     (case r of Inl e \<Rightarrow> Inl e | Inr (ts, ex, n) \<Rightarrow> Inr (t # ts, ex, n))"

text \<open>An option with an explicit argument. A single-dash option that takes no argument
  passes its explicit argument on as further single-dash options (\<^verbatim>\<open>-Vh\<close>); a
  \<^verbatim>\<open>store\<close> option takes it as its value; otherwise it is an error.\<close>

fun explicit_chain ::
  "world \<Rightarrow> string \<times> action \<Rightarrow> string \<Rightarrow> bool \<Rightarrow> string \<Rightarrow> (string \<times> pattern) list
     \<Rightarrow> py_exc + action_tuples" where
  "explicit_chain w na option_string sep [] rest =
     (if nargs (snd na) = 1 then Inr ([(na, [[]])], [], 0) else Inl (SystemExit 2))"
| "explicit_chain w na option_string sep (c # e) rest =
     (if nargs (snd na) = 0 \<and> option_string ! 1 \<noteq> CHR ''-''
      then (if sep \<or> c = CHR ''-'' then Inl (SystemExit 2)
            else (case map_of (option_string_actions w) [hd option_string, c] of
                    None \<Rightarrow> Inr ([(na, [])], [hd option_string # c # e], 0)
                  | Some na' \<Rightarrow>
                      also_action (na, [])
                        (case e of
                           [] \<Rightarrow> match_following na' rest
                         | d # e' \<Rightarrow>
                             (if d = CHR ''=''
                              then explicit_chain w na' [hd option_string, c] True e' rest
                              else explicit_chain w na' [hd option_string, c] False (d # e') rest))))
      else if nargs (snd na) = 1 then Inr ([(na, [c # e])], [], 0)
      else Inl (SystemExit 2))"

text \<open>\<^verbatim>\<open>consume_optional\<close> at an option string: the new state and the number of
  following strings used.\<close>

definition consume_optional ::
  "world \<Rightarrow> parser_state \<Rightarrow> string \<Rightarrow> option_tuple \<Rightarrow> (string \<times> pattern) list
     \<Rightarrow> py_exc + parser_state \<times> nat" where
  "consume_optional w st arg_string tup rest =
     (case tup of
        (None, option_string, sep, explicit_arg) \<Rightarrow>
          Inr (st\<lparr>extras := extras st @ [arg_string]\<rparr>, 0)
      | (Some na, option_string, sep, explicit_arg) \<Rightarrow>
          (case (case explicit_arg of
                   None \<Rightarrow> match_following na rest
                 | Some e \<Rightarrow> explicit_chain w na option_string sep e rest) of
             Inl e \<Rightarrow> Inl e
           | Inr (ts, ex, n) \<Rightarrow>
               (case take_actions ts (st\<lparr>extras := extras st @ ex\<rparr>) of
                  Inl e \<Rightarrow> Inl e
                | Inr st' \<Rightarrow> Inr (st', n))))"

text \<open>The pattern \<^verbatim>\<open>(-*A?-*)\<close> of a positional with \<^verbatim>\<open>nargs='?'\<close>, matched greedily.\<close>

fun is_dash :: "pattern \<Rightarrow> bool" where
  "is_dash Pat_dash = True"
| "is_dash p = False"

definition match_optional_positional :: "pattern list \<Rightarrow> nat" where
  "match_optional_positional ps =
     (let n1 = length (takeWhile is_dash ps);
          n2 = (case drop n1 ps of Pat_A # others \<Rightarrow> 1 | _ \<Rightarrow> 0);
          n3 = length (takeWhile is_dash (drop (n1 + n2) ps))
      in n1 + n2 + n3)"

text \<open>\<^verbatim>\<open>_match_arguments_partial\<close>: every pending positional can match the empty string,
  so the pattern of all of them always matches, each group as long as it can be.\<close>

fun match_arguments_partial :: "'p list \<Rightarrow> pattern list \<Rightarrow> nat list" where
  "match_arguments_partial [] ps = []"
| "match_arguments_partial (p # pos) ps =
     (let n = match_optional_positional ps
      in n # match_arguments_partial pos (drop n ps))"

fun take_positionals ::
  "(py_value \<times> (py_value \<Rightarrow> args \<Rightarrow> args)) list \<Rightarrow> nat list \<Rightarrow> string list
     \<Rightarrow> args \<Rightarrow> args" where
  "take_positionals ((dflt, f) # pos) (n # counts) strings a =
     take_positionals pos counts (drop n strings) (f (get_values dflt (take n strings)) a)"
| "take_positionals pos counts strings a = a"

text \<open>\<^verbatim>\<open>consume_positionals\<close>: the new state and the number of strings used.\<close>

definition consume_positionals ::
  "parser_state \<Rightarrow> (string \<times> pattern) list \<Rightarrow> parser_state \<times> nat" where
  "consume_positionals st toks =
     (let arg_counts = match_arguments_partial (pending st) (map snd toks)
      in (st\<lparr>namespace := take_positionals (pending st) arg_counts (map fst toks) (namespace st),
              pending := drop (length arg_counts) (pending st)\<rparr>,
          sum_list arg_counts))"

text \<open>The strings up to the next option, the option, and the strings after it.\<close>

fun next_option ::
  "(string \<times> pattern) list
     \<Rightarrow> (string list \<times> string \<times> option_tuple \<times> (string \<times> pattern) list) option" where
  "next_option [] = None"
| "next_option ((s, Pat_O tup) # rest) = Some ([], s, tup, rest)"
| "next_option ((s, p) # rest) =
     (case next_option rest of
        None \<Rightarrow> None
      | Some (skipped, x) \<Rightarrow> Some (s # skipped, x))"

text \<open>One round of the loop of \<^verbatim>\<open>_parse_known_args\<close> (``consume Positionals and
  Optionals alternately''), and what follows the loop when no option is left.\<close>

datatype parse_step = Done "py_exc + parser_state" | Continue parser_state "(string \<times> pattern) list"

definition parse_step :: "world \<Rightarrow> parser_state \<Rightarrow> (string \<times> pattern) list \<Rightarrow> parse_step" where
  "parse_step w st toks =
     (case next_option toks of
        None \<Rightarrow>
          (case consume_positionals st toks of
             (st', n) \<Rightarrow> Done (Inr (st'\<lparr>extras := extras st' @ map fst (drop n toks)\<rparr>)))
      | Some (skipped, arg_string, tup, rest) \<Rightarrow>
          (case (if skipped \<noteq> [] then consume_positionals st toks else (st, 0)) of
             (st1, n) \<Rightarrow>
               (if n > 0 then Continue st1 (drop n toks)
                else (case consume_optional w (st1\<lparr>extras := extras st1 @ skipped\<rparr>)
                             arg_string tup rest of
                        Inl e \<Rightarrow> Done (Inl e)
                      | Inr (st2, m) \<Rightarrow> Continue st2 (drop m rest)))))"

lemma next_option_length:
  "next_option toks = Some (skipped, arg_string, tup, rest) \<Longrightarrow>
     length toks = length skipped + 1 + length rest"
  by (induction toks arbitrary: skipped rule: next_option.induct)
     (auto split: option.splits)

lemma parse_step_shorter:
  assumes "parse_step w st toks = Continue st' toks'"
  shows "length toks' < length toks"
proof (cases "next_option toks")
  case None
  with assms show ?thesis
    by (simp add: parse_step_def split: prod.splits)
next
  case (Some x)
  obtain skipped arg_string tup rest where x: "x = (skipped, arg_string, tup, rest)"
    by (cases x) auto
  from Some x have len: "length toks = length skipped + 1 + length rest"
    by (simp add: next_option_length)
  from assms Some x len show ?thesis
    by (auto simp: parse_step_def split: prod.splits if_splits sum.splits)
qed

text \<open>The loop itself. Every round uses at least one string, so it ends.\<close>

function parse_loop ::
  "world \<Rightarrow> parser_state \<Rightarrow> (string \<times> pattern) list \<Rightarrow> py_exc + parser_state" where
  "parse_loop w st toks =
     (case parse_step w st toks of
        Done r \<Rightarrow> r
      | Continue st' toks' \<Rightarrow> parse_loop w st' toks')"
  by pat_completeness auto
termination
  by (relation "measure (\<lambda>(w, st, toks). length toks)") (auto simp: parse_step_shorter)

declare parse_loop.simps [simp del]

text \<open>\<^verbatim>\<open>parser.parse_args(arg_strings)\<close>: the strings are classified, the loop runs from
  the defaults, and strings that no action took are an error.\<close>

definition parser_parse_args :: "world \<Rightarrow> string list \<Rightarrow> py_exc + args" where
  "parser_parse_args w arg_strings =
     (case arg_strings_pattern w arg_strings of
        Inl e \<Rightarrow> Inl e
      | Inr pats \<Rightarrow>
          (case parse_loop w
                  \<lparr>namespace = defaults, pending = positionals, seen_non_default = [],
                   extras = []\<rparr>
                  (zip arg_strings pats) of
             Inl e \<Rightarrow> Inl e
           | Inr st \<Rightarrow> (if extras st = [] then Inr (namespace st) else Inl (SystemExit 2))))"

subsection \<open>The functions of the module\<close>

text \<open>The call of line 108. What the parser answers does not depend on earlier calls.\<close>

definition parser_call :: "world \<Rightarrow> string list \<Rightarrow> args py" where
  "parser_call w arg_strings =
     call (\<lambda>h. parser_parse_args w arg_strings) (Call_parse_args arg_strings)"

text \<open>\<^verbatim>\<open>parse_args(argv)\<close>, lines 29 to 133. The parser gets \<^verbatim>\<open>argv[1:]\<close>.\<close>

definition parse_args :: "world \<Rightarrow> string list \<Rightarrow> args py" where
  "parse_args w argv =
     py_bind (parser_call w (drop 1 argv)) (\<lambda>args.
       if debug args
       then py_bind (parent_setLevel DEBUG) (\<lambda>_.
            py_bind (libav_setLevel WARNING) (\<lambda>_.
            py_bind (if \<not> launch_example_notebook_arg args
                     then logger_debug ''Debug messages enabled''
                     else py_return ()) (\<lambda>_.
            py_return args)))
       else py_bind (parent_setLevel (default_log_level w)) (\<lambda>_.
            py_bind (libav_setLevel CRITICAL) (\<lambda>_.
            py_return args)))"

text \<open>The calls that leave the module, each named as the code names it.
  \<open>widget_show\<close> is the method \<^verbatim>\<open>show()\<close> of the splash screen and of the window,
  \<open>splash_finish\<close> is \<^verbatim>\<open>splash.finish(win)\<close>, \<open>app_exec\<close> is \<^verbatim>\<open>app.exec_()\<close>.\<close>

definition resource_filename :: "world \<Rightarrow> string \<Rightarrow> string \<Rightarrow> string py" where
  "resource_filename w package name =
     call (ext_resource_filename w package name) (Call_resource_filename package name)"

definition Popen :: "world \<Rightarrow> string list \<Rightarrow> string py" where
  "Popen w cmd = call (ext_Popen w cmd) (Call_Popen cmd)"

definition mkQApp :: "world \<Rightarrow> obj py" where
  "mkQApp w = call (ext_mkQApp w) Call_mkQApp"

definition QPixmap :: "world \<Rightarrow> string \<Rightarrow> obj py" where
  "QPixmap w path = call (ext_QPixmap w path) (Call_QPixmap path)"

definition QSplashScreen :: "world \<Rightarrow> obj \<Rightarrow> obj py" where
  "QSplashScreen w pixmap = call (ext_QSplashScreen w pixmap) (Call_QSplashScreen pixmap)"

definition MainWindow :: "world \<Rightarrow> main_window_kwargs \<Rightarrow> obj py" where
  "MainWindow w kwargs = call (ext_MainWindow w kwargs) (Call_MainWindow kwargs)"

definition widget_show :: "world \<Rightarrow> obj \<Rightarrow> unit py" where
  "widget_show w widget = call (ext_show w widget) (Call_show widget)"

definition splash_finish :: "world \<Rightarrow> obj \<Rightarrow> obj \<Rightarrow> unit py" where
  "splash_finish w splash win = call (ext_finish w splash win) (Call_finish splash win)"

definition app_exec :: "world \<Rightarrow> obj \<Rightarrow> unit py" where
  "app_exec w app = call (ext_exec w app) (Call_exec app)"

definition load_dataset :: "world \<Rightarrow> obj \<Rightarrow> obj \<Rightarrow> bool \<Rightarrow> obj py" where
  "load_dataset w metadata blk lazy' =
     call (ext_load_dataset w metadata blk lazy') (Call_load_dataset metadata blk lazy')"

definition EphyviewerConfigurator :: "world \<Rightarrow> obj \<Rightarrow> obj \<Rightarrow> bool \<Rightarrow> obj py" where
  "EphyviewerConfigurator w metadata blk lazy' =
     call (ext_EphyviewerConfigurator w metadata blk lazy')
       (Call_EphyviewerConfigurator metadata blk lazy')"

definition show_all :: "world \<Rightarrow> obj \<Rightarrow> unit py" where
  "show_all w config = call (ext_show_all w config) (Call_show_all config)"

definition launch_ephyviewer :: "world \<Rightarrow> obj \<Rightarrow> unit py" where
  "launch_ephyviewer w config =
     call (ext_launch_ephyviewer w config) (Call_launch_ephyviewer config)"

text \<open>\<^verbatim>\<open>win_from_args(args)\<close>, lines 135 to 144.\<close>

definition win_from_args :: "world \<Rightarrow> args \<Rightarrow> obj py" where
  "win_from_args w args =
     py_bind (MainWindow w
                \<lparr>kw_file = file args, kw_initial_selection = dataset args,
                 kw_lazy = lazy args, kw_theme = theme args, kw_ui_scale = ui_scale args,
                 kw_support_increased_line_width = thick_traces args,
                 kw_show_datetime = show_datetime args\<rparr>) (\<lambda>win.
     py_return win)"

text \<open>Python's test \<^verbatim>\<open>if out:\<close> on a variable that is \<^verbatim>\<open>None\<close> or a byte string.\<close>

definition truthy :: "string option \<Rightarrow> bool" where
  "truthy out = (case out of None \<Rightarrow> False | Some b \<Rightarrow> b \<noteq> [])"

text \<open>The message of lines 160 and 161; \<open>CHR 0x22\<close> is the double quote.\<close>

definition unable_to_verify :: string where
  "unable_to_verify =
     ''Unable to verify Jupyter is installed using '' @ [CHR 0x22] @
     ''jupyter notebook --version'' @ [CHR 0x22] @ ''. Is it installed?''"

text \<open>The literals of \<^verbatim>\<open>launch_example_notebook\<close>: the resource of lines 151 and 152,
  the command of line 157, the command of line 166 and the message of line 169.\<close>

definition notebook_package :: string where
  "notebook_package = ''neurotic''"

definition notebook_resource :: string where
  "notebook_resource = ''example/example-notebook.ipynb''"

definition version_check :: "string list" where
  "version_check = [''jupyter'', ''notebook'', ''--version'']"

definition run_notebook :: "string \<Rightarrow> string list" where
  "run_notebook path = [''jupyter'', ''notebook'', path]"

definition unable_to_locate :: "string \<Rightarrow> string" where
  "unable_to_locate path = ''Unable to locate the example notebook at '' @ path"

text \<open>\<^verbatim>\<open>launch_example_notebook()\<close>, lines 146 to 169.\<close>

definition launch_example_notebook :: "world \<Rightarrow> unit py" where
  "launch_example_notebook w =
     py_bind (resource_filename w notebook_package notebook_resource) (\<lambda>path.
     py_bind (try_except_FileNotFoundError
                (py_bind (Popen w version_check) (\<lambda>b.
                 py_return (Some b)))
                (py_bind (logger_error unable_to_verify) (\<lambda>_.
                 py_return None))) (\<lambda>out.
     if truthy out
     then try_except_FileNotFoundError
            (py_bind (Popen w (run_notebook path)) (\<lambda>b.
             py_return ()))
            (logger_error (unable_to_locate path))
     else py_return ()))"

text \<open>The literals of \<^verbatim>\<open>main\<close>: the messages of lines 180 and 187 and the resource of
  line 182.\<close>

definition loading_message :: string where
  "loading_message = ''Loading user interface''"

definition ready_message :: string where
  "ready_message = ''Ready''"

definition logo :: string where
  "logo = '':/neurotic-logo-300.png''"

text \<open>\<^verbatim>\<open>main()\<close>, lines 171 to 188; \<open>sys_argv\<close> is \<^verbatim>\<open>sys.argv\<close>.\<close>

definition main :: "world \<Rightarrow> string list \<Rightarrow> unit py" where
  "main w sys_argv =
     py_bind (parse_args w sys_argv) (\<lambda>args.
     if launch_example_notebook_arg args
     then launch_example_notebook w
     else py_bind (logger_info loading_message) (\<lambda>_.
          py_bind (mkQApp w) (\<lambda>app.
          py_bind (QPixmap w logo) (\<lambda>pixmap.
          py_bind (QSplashScreen w pixmap) (\<lambda>splash.
          py_bind (widget_show w splash) (\<lambda>_.
          py_bind (win_from_args w args) (\<lambda>win.
          py_bind (widget_show w win) (\<lambda>_.
          py_bind (splash_finish w splash win) (\<lambda>_.
          py_bind (logger_info ready_message) (\<lambda>_.
          app_exec w app))))))))))"

text \<open>\<^verbatim>\<open>quick_launch(metadata, blk, lazy)\<close>, lines 190 to 217.\<close>

definition quick_launch :: "world \<Rightarrow> obj \<Rightarrow> obj \<Rightarrow> bool \<Rightarrow> unit py" where
  "quick_launch w metadata blk lazy' =
     py_bind (load_dataset w metadata blk lazy') (\<lambda>blk'.
     py_bind (EphyviewerConfigurator w metadata blk' lazy') (\<lambda>ephyviewer_config.
     py_bind (show_all w ephyviewer_config) (\<lambda>_.
     launch_ephyviewer w ephyviewer_config)))"

subsection \<open>What a computation adds to the state\<close>

text \<open>The calls a computation makes from a state, and the calls of it that raise.\<close>

definition new_events :: "'a py \<Rightarrow> state \<Rightarrow> event list" where
  "new_events m s = drop (length (trace s)) (trace (snd (m s)))"

definition new_raised :: "'a py \<Rightarrow> state \<Rightarrow> (event \<times> py_exc) list" where
  "new_raised m s = drop (length (raised s)) (raised (snd (m s)))"

text \<open>Kinds of events: the subprocess calls, the error messages, the calls that build and
  run the Qt application, and the calls that \<open>launch_example_notebook\<close> makes.\<close>

fun is_Popen :: "event \<Rightarrow> bool" where
  "is_Popen (Call_Popen cmd) = True"
| "is_Popen ev = False"

fun is_Logger_error :: "event \<Rightarrow> bool" where
  "is_Logger_error (Logger_error msg) = True"
| "is_Logger_error ev = False"

fun is_gui_event :: "event \<Rightarrow> bool" where
  "is_gui_event Call_mkQApp = True"
| "is_gui_event (Call_QPixmap path) = True"
| "is_gui_event (Call_QSplashScreen pixmap) = True"
| "is_gui_event (Call_MainWindow kwargs) = True"
| "is_gui_event (Call_show widget) = True"
| "is_gui_event (Call_finish splash win) = True"
| "is_gui_event (Call_exec app) = True"
| "is_gui_event ev = False"

fun is_notebook_event :: "event \<Rightarrow> bool" where
  "is_notebook_event (Call_resource_filename package name) = True"
| "is_notebook_event (Call_Popen cmd) = True"
| "is_notebook_event ev = False"

text \<open>An entry of \<open>raised\<close> that is a subprocess call raising \<^verbatim>\<open>FileNotFoundError\<close>.\<close>

fun missing_executable :: "event \<times> py_exc \<Rightarrow> bool" where
  "missing_executable (ev, e) = (is_Popen ev \<and> e = FileNotFoundError)"

text \<open>A world in which every outside call returns, with the scales and themes of the
  package, and a state in which nothing has been called and both loggers are at
  \<^verbatim>\<open>NOTSET\<close>. The theorems below hold for every world and state; these two serve as
  concrete inputs.\<close>

definition example_world :: world where
  "example_world =
     \<lparr>default_log_level = 30,
      available_ui_scales = [''tiny'', ''small'', ''medium'', ''large'', ''huge''],
      available_themes = [''light'', ''dark'', ''original'', ''printer-friendly''],
      ext_resource_filename = (\<lambda>package name h. Inr (''/site-packages/'' @ package @ ''/'' @ name)),
      ext_Popen = (\<lambda>cmd h. Inr ''6.0.3''),
      ext_mkQApp = (\<lambda>h. Inr 1),
      ext_QPixmap = (\<lambda>path h. Inr 2),
      ext_QSplashScreen = (\<lambda>pixmap h. Inr 3),
      ext_MainWindow = (\<lambda>kwargs h. Inr 4),
      ext_show = (\<lambda>widget h. Inr ()),
      ext_finish = (\<lambda>splash win h. Inr ()),
      ext_exec = (\<lambda>app h. Inr ()),
      ext_load_dataset = (\<lambda>metadata blk lazy' h. Inr 5),
      ext_EphyviewerConfigurator = (\<lambda>metadata blk lazy' h. Inr 6),
      ext_show_all = (\<lambda>config h. Inr ()),
      ext_launch_ephyviewer = (\<lambda>config h. Inr ())\<rparr>"

definition initial_state :: state where
  "initial_state = \<lparr>trace = [], raised = [], parent_level = 0, libav_level = 0\<rparr>"

text \<open>Three variations: Jupyter is not installed (every subprocess call raises
  \<^verbatim>\<open>FileNotFoundError\<close>); the version check prints nothing; the version check succeeds
  and the second subprocess call raises \<^verbatim>\<open>FileNotFoundError\<close>.\<close>

definition jupyter_missing_world :: world where
  "jupyter_missing_world = example_world\<lparr>ext_Popen := (\<lambda>cmd h. Inl FileNotFoundError)\<rparr>"

definition silent_jupyter_world :: world where
  "silent_jupyter_world = example_world\<lparr>ext_Popen := (\<lambda>cmd h. Inr [])\<rparr>"

definition missing_notebook_world :: world where
  "missing_notebook_world =
     example_world\<lparr>ext_Popen :=
       (\<lambda>cmd h. if cmd = version_check then Inr ''6.0.3'' else Inl FileNotFoundError)\<rparr>"

text \<open>The path that \<open>example_world\<close> gives for the example notebook.\<close>

definition example_path :: string where
  "example_path = ''/site-packages/neurotic/example/example-notebook.ipynb''"

section \<open>Properties\<close>

subsection \<open>The parser on concrete command lines\<close>

lemma parser_parse_args_Nil: "parser_parse_args w [] = Inr defaults"
  by (simp add: parser_parse_args_def parse_loop.simps parse_step_def consume_positionals_def
      positionals_def match_optional_positional_def get_values_def defaults_def)

lemma parser_parse_args_debug:
  "parser_parse_args example_world [''--debug''] = Inr (defaults\<lparr>debug := True\<rparr>)"
  by (simp add: parser_parse_args_def parse_loop.simps parse_step_def consume_positionals_def
      positionals_def match_optional_positional_def get_values_def defaults_def
      parse_optional_def option_string_actions_def optionals_def consume_optional_def
      match_following_def nargs_def take_action_def example_world_def)

subsection \<open>\<open>parse_args\<close>\<close>

text \<open>What \<open>parse_args\<close> does, by what the parser answers.\<close>

lemma parse_args_Inr:
  assumes "parser_parse_args w (drop 1 argv) = Inr a"
  shows "parse_args w argv s =
     (Inr a,
      s\<lparr>trace := trace s @ Call_parse_args (drop 1 argv) #
                (if debug a \<and> \<not> launch_example_notebook_arg a
                 then [Logger_debug ''Debug messages enabled''] else []),
        parent_level := (if debug a then DEBUG else default_log_level w),
        libav_level := (if debug a then WARNING else CRITICAL)\<rparr>)"
  using assms
  by (simp add: parse_args_def parser_call_def call_def py_bind_def py_return_def
      parent_setLevel_def libav_setLevel_def logger_debug_def logger_call_def)

lemma parse_args_Inl:
  assumes "parser_parse_args w (drop 1 argv) = Inl e"
  shows "parse_args w argv s =
     (Inl e, s\<lparr>trace := trace s @ [Call_parse_args (drop 1 argv)],
               raised := raised s @ [(Call_parse_args (drop 1 argv), e)]\<rparr>)"
  using assms
  by (simp add: parse_args_def parser_call_def call_def py_bind_def)

text \<open>
  \<^bold>\<open>Claim C7.\<close> When \<open>parse_args\<close> is called with an argument vector that holds the program
  name and nothing else, it returns, and the namespace it returns has \<^verbatim>\<open>file=None\<close>,
  \<^verbatim>\<open>dataset=None\<close>, \<^verbatim>\<open>debug=False\<close>, \<^verbatim>\<open>lazy=True\<close>, \<^verbatim>\<open>thick_traces=False\<close>,
  \<^verbatim>\<open>show_datetime=False\<close>, \<^verbatim>\<open>ui_scale='medium'\<close>, \<^verbatim>\<open>theme='light'\<close> and
  \<^verbatim>\<open>launch_example_notebook=False\<close>, whatever the program name, the world and the state.
\<close>

theorem parse_args_defaults:
  "fst (parse_args w [prog] s) =
     Inr \<lparr>file = PyNone, dataset = PyNone, debug = False, lazy = True, thick_traces = False,
          show_datetime = False, ui_scale = PyStr ''medium'', theme = PyStr ''light'',
          launch_example_notebook_arg = False\<rparr>"
  by (simp add: parse_args_Inr parser_parse_args_Nil defaults_def)

text \<open>
  \<^bold>\<open>Claim C8.\<close> Two argument vectors that differ only in their first element give the same
  computation: for every state, \<open>parse_args\<close> returns the same result (or raises the same
  exit) and leaves the same state, logging levels included.
\<close>

theorem parse_args_ignores_argv0:
  "parse_args w (a # rest) = parse_args w (b # rest)"
  by (simp add: parse_args_def)

text \<open>
  \<^bold>\<open>Claim C3.\<close> For every argument vector on which the parser returns a namespace,
  \<open>parse_args\<close> returns that namespace, and it branches on its \<^verbatim>\<open>debug\<close> attribute: when it
  is true the level of the parent logger is set to \<^verbatim>\<open>DEBUG\<close> and the level of
  \<^verbatim>\<open>'libav'\<close> to \<^verbatim>\<open>WARNING\<close>; when it is false the parent logger is set to
  \<open>default_log_level\<close> and \<^verbatim>\<open>'libav'\<close> to \<^verbatim>\<open>CRITICAL\<close>.
\<close>

theorem parse_args_sets_levels:
  assumes "parser_parse_args w (drop 1 argv) = Inr a"
  shows "fst (parse_args w argv s) = Inr a \<and>
         parent_level (snd (parse_args w argv s)) =
           (if debug a then DEBUG else default_log_level w) \<and>
         libav_level (snd (parse_args w argv s)) = (if debug a then WARNING else CRITICAL)"
  by (simp add: parse_args_Inr [OF assms])

theorem parse_args_sets_levels_witness:
  "parser_parse_args example_world (drop 1 [''neurotic'', ''--debug''])
     = Inr (defaults\<lparr>debug := True\<rparr>) \<and>
   fst (parse_args example_world [''neurotic'', ''--debug''] initial_state)
     = Inr (defaults\<lparr>debug := True\<rparr>) \<and>
   parent_level (snd (parse_args example_world [''neurotic'', ''--debug''] initial_state)) = 10 \<and>
   libav_level (snd (parse_args example_world [''neurotic'', ''--debug''] initial_state)) = 30"
proof -
  have h: "parser_parse_args example_world (drop 1 [''neurotic'', ''--debug''])
             = Inr (defaults\<lparr>debug := True\<rparr>)"
    by (simp add: parser_parse_args_debug)
  from parse_args_sets_levels [OF h, of initial_state] h show ?thesis
    by (simp add: DEBUG_def WARNING_def)
qed

text \<open>
  \<^bold>\<open>Claim C9.\<close> Whenever \<open>parse_args\<close> returns, the two levels are in exactly one of two
  configurations: parent logger at \<^verbatim>\<open>DEBUG\<close> and \<^verbatim>\<open>'libav'\<close> at \<^verbatim>\<open>WARNING\<close> when the
  returned namespace asks for debugging, parent logger at \<open>default_log_level\<close> and
  \<^verbatim>\<open>'libav'\<close> at \<^verbatim>\<open>CRITICAL\<close> when it does not; the two configurations never hold
  together. The levels are written on every call: from whatever state \<open>parse_args\<close> is
  called on the same argument vector, the levels afterwards are these.
\<close>

theorem parse_args_logging_invariant:
  assumes "parse_args w argv s = (Inr a, s')"
  shows "(if debug a
          then parent_level s' = DEBUG \<and> libav_level s' = WARNING
          else parent_level s' = default_log_level w \<and> libav_level s' = CRITICAL) \<and>
         \<not> ((parent_level s' = DEBUG \<and> libav_level s' = WARNING) \<and>
            (parent_level s' = default_log_level w \<and> libav_level s' = CRITICAL)) \<and>
         (\<forall>t. parent_level (snd (parse_args w argv t)) = parent_level s' \<and>
              libav_level (snd (parse_args w argv t)) = libav_level s')"
proof (cases "parser_parse_args w (drop 1 argv)")
  case (Inl e)
  with assms show ?thesis
    by (simp add: parse_args_Inl)
next
  case (Inr a')
  from assms have "a = a'"
    by (simp add: parse_args_Inr [OF Inr])
  with assms Inr show ?thesis
    by (auto simp: parse_args_Inr [OF Inr] WARNING_def CRITICAL_def)
qed

theorem parse_args_logging_invariant_witness:
  "parse_args example_world [''neurotic''] initial_state =
     (Inr defaults,
      initial_state\<lparr>trace := [Call_parse_args []], parent_level := 30, libav_level := 50\<rparr>) \<and>
   parent_level (snd (parse_args example_world [''neurotic'']
     (initial_state\<lparr>parent_level := 10, libav_level := 30\<rparr>))) = 30 \<and>
   libav_level (snd (parse_args example_world [''neurotic'']
     (initial_state\<lparr>parent_level := 10, libav_level := 30\<rparr>))) = 50"
proof -
  have h: "parse_args example_world [''neurotic''] initial_state =
     (Inr defaults,
      initial_state\<lparr>trace := [Call_parse_args []], parent_level := 30, libav_level := 50\<rparr>)"
    by (simp add: parse_args_Inr [of _ _ defaults] parser_parse_args_Nil defaults_def
        example_world_def initial_state_def CRITICAL_def)
  from parse_args_logging_invariant [OF h] h show ?thesis
    by simp
qed

subsection \<open>Running the computations\<close>

lemmas exec_defs = py_bind_def py_return_def call_def logger_call_def logger_error_def
  logger_info_def logger_debug_def try_except_FileNotFoundError_def

lemmas call_defs = resource_filename_def Popen_def mkQApp_def QPixmap_def QSplashScreen_def
  MainWindow_def widget_show_def splash_finish_def app_exec_def load_dataset_def
  EphyviewerConfigurator_def show_all_def launch_ephyviewer_def

text \<open>\<open>launch_example_notebook\<close> by what the world answers: the result and the state for
  each of the seven ways it can go.\<close>

lemma launch_example_notebook_cases:
  "launch_example_notebook w s =
    (case ext_resource_filename w notebook_package notebook_resource (trace s) of
       Inl e \<Rightarrow>
         (Inl e,
          s\<lparr>trace := trace s @ [Call_resource_filename notebook_package notebook_resource],
            raised := raised s @
              [(Call_resource_filename notebook_package notebook_resource, e)]\<rparr>)
     | Inr path \<Rightarrow>
        (case ext_Popen w version_check
                (trace s @ [Call_resource_filename notebook_package notebook_resource]) of
           Inl e \<Rightarrow>
             (if e = FileNotFoundError
              then (Inr (),
                    s\<lparr>trace := trace s @
                        [Call_resource_filename notebook_package notebook_resource,
                         Call_Popen version_check,
                         Logger_error unable_to_verify],
                      raised := raised s @ [(Call_Popen version_check, e)]\<rparr>)
              else (Inl e,
                    s\<lparr>trace := trace s @
                        [Call_resource_filename notebook_package notebook_resource,
                         Call_Popen version_check],
                      raised := raised s @ [(Call_Popen version_check, e)]\<rparr>))
         | Inr out \<Rightarrow>
             (if out = []
              then (Inr (),
                    s\<lparr>trace := trace s @
                        [Call_resource_filename notebook_package notebook_resource,
                         Call_Popen version_check]\<rparr>)
              else (case ext_Popen w (run_notebook path)
                           (trace s @
                             [Call_resource_filename notebook_package notebook_resource,
                              Call_Popen version_check]) of
                      Inl e \<Rightarrow>
                        (if e = FileNotFoundError
                         then (Inr (),
                               s\<lparr>trace := trace s @
                                   [Call_resource_filename notebook_package notebook_resource,
                                    Call_Popen version_check,
                                    Call_Popen (run_notebook path),
                                    Logger_error (unable_to_locate path)],
                                 raised := raised s @ [(Call_Popen (run_notebook path), e)]\<rparr>)
                         else (Inl e,
                               s\<lparr>trace := trace s @
                                   [Call_resource_filename notebook_package notebook_resource,
                                    Call_Popen version_check,
                                    Call_Popen (run_notebook path)],
                                 raised := raised s @ [(Call_Popen (run_notebook path), e)]\<rparr>))
                    | Inr b \<Rightarrow>
                        (Inr (),
                         s\<lparr>trace := trace s @
                             [Call_resource_filename notebook_package notebook_resource,
                              Call_Popen version_check,
                              Call_Popen (run_notebook path)]\<rparr>)))))"
  by (simp add: launch_example_notebook_def call_defs truthy_def
      exec_defs split: sum.splits py_exc.splits)

text \<open>\<open>main\<close> after \<open>parse_args\<close> has returned.\<close>

lemma main_parsed:
  assumes "parse_args w argv s = (Inr a, s1)"
  shows "main w argv s =
     (if launch_example_notebook_arg a
      then launch_example_notebook w
      else py_bind (logger_info loading_message) (\<lambda>_.
           py_bind (mkQApp w) (\<lambda>app.
           py_bind (QPixmap w logo) (\<lambda>pixmap.
           py_bind (QSplashScreen w pixmap) (\<lambda>splash.
           py_bind (widget_show w splash) (\<lambda>_.
           py_bind (win_from_args w a) (\<lambda>win.
           py_bind (widget_show w win) (\<lambda>_.
           py_bind (splash_finish w splash win) (\<lambda>_.
           py_bind (logger_info ready_message) (\<lambda>_.
           app_exec w app)))))))))) s1"
  using assms by (simp add: main_def py_bind_def)

lemma example_world_answers:
  "ext_resource_filename example_world notebook_package notebook_resource h = Inr example_path"
  "ext_Popen example_world cmd h = Inr ''6.0.3''"
  "ext_mkQApp example_world h = Inr 1"
  "ext_QPixmap example_world path h = Inr 2"
  "ext_QSplashScreen example_world pixmap h = Inr 3"
  "ext_MainWindow example_world kwargs h = Inr 4"
  "ext_show example_world widget h = Inr ()"
  "ext_finish example_world splash win h = Inr ()"
  "ext_exec example_world app h = Inr ()"
  "ext_load_dataset example_world metadata blk lz h = Inr 5"
  "ext_EphyviewerConfigurator example_world metadata blk lz h = Inr 6"
  "ext_show_all example_world config h = Inr ()"
  "ext_launch_ephyviewer example_world config h = Inr ()"
  by (simp_all add: example_world_def notebook_package_def notebook_resource_def example_path_def)

subsection \<open>\<open>win_from_args\<close>\<close>

text \<open>
  \<^bold>\<open>Claim C6.\<close> For every namespace, \<open>win_from_args\<close> makes exactly one outside call, the
  constructor \<^verbatim>\<open>MainWindow\<close> with \<^verbatim>\<open>file=args.file\<close>,
  \<^verbatim>\<open>initial_selection=args.dataset\<close>, \<^verbatim>\<open>lazy=args.lazy\<close>, \<^verbatim>\<open>theme=args.theme\<close>,
  \<^verbatim>\<open>ui_scale=args.ui_scale\<close>, \<^verbatim>\<open>support_increased_line_width=args.thick_traces\<close> and
  \<^verbatim>\<open>show_datetime=args.show_datetime\<close>, and returns what the constructor returns (or
  raises what it raises). It leaves the logging levels alone, and the two attributes it
  does not pass, \<^verbatim>\<open>debug\<close> and \<^verbatim>\<open>launch_example_notebook\<close>, have no influence on it.
\<close>

theorem win_from_args_call:
  "fst (win_from_args w a s) =
     ext_MainWindow w
       \<lparr>kw_file = file a, kw_initial_selection = dataset a, kw_lazy = lazy a,
        kw_theme = theme a, kw_ui_scale = ui_scale a,
        kw_support_increased_line_width = thick_traces a,
        kw_show_datetime = show_datetime a\<rparr> (trace s) \<and>
   new_events (win_from_args w a) s =
     [Call_MainWindow
        \<lparr>kw_file = file a, kw_initial_selection = dataset a, kw_lazy = lazy a,
         kw_theme = theme a, kw_ui_scale = ui_scale a,
         kw_support_increased_line_width = thick_traces a,
         kw_show_datetime = show_datetime a\<rparr>] \<and>
   parent_level (snd (win_from_args w a s)) = parent_level s \<and>
   libav_level (snd (win_from_args w a s)) = libav_level s \<and>
   win_from_args w (a\<lparr>debug := d, launch_example_notebook_arg := n\<rparr>) s = win_from_args w a s"
  by (simp add: win_from_args_def MainWindow_def new_events_def exec_defs split: sum.splits)

subsection \<open>\<open>launch_example_notebook\<close>\<close>

text \<open>
  \<^bold>\<open>Claim C10.\<close> When the resource is found and the version check
  \<^verbatim>\<open>jupyter notebook --version\<close> runs without raising but prints nothing,
  \<open>launch_example_notebook\<close> returns having made only those two calls: it does not start
  the notebook server and logs no error. In every run there are at most two subprocess
  calls, and there are two exactly when the version check returned a non-empty output.
\<close>

theorem launch_example_notebook_falsy_output:
  "(ext_resource_filename w notebook_package notebook_resource (trace s) = Inr path \<and>
    ext_Popen w version_check
      (trace s @ [Call_resource_filename notebook_package notebook_resource]) = Inr []
    \<longrightarrow>
    launch_example_notebook w s =
      (Inr (), s\<lparr>trace := trace s @
                 [Call_resource_filename notebook_package notebook_resource,
                  Call_Popen version_check]\<rparr>)) \<and>
   length (filter is_Popen (new_events (launch_example_notebook w) s)) \<le> 2 \<and>
   (length (filter is_Popen (new_events (launch_example_notebook w) s)) = 2) =
     (case ext_resource_filename w notebook_package notebook_resource (trace s) of
        Inl e \<Rightarrow> False
      | Inr p \<Rightarrow>
          (case ext_Popen w version_check
                  (trace s @ [Call_resource_filename notebook_package notebook_resource]) of
             Inl e \<Rightarrow> False
           | Inr out \<Rightarrow> out \<noteq> []))"
  by (simp add: launch_example_notebook_cases new_events_def split: sum.splits)

theorem launch_example_notebook_falsy_output_witness:
  "ext_resource_filename silent_jupyter_world notebook_package notebook_resource
     (trace initial_state) = Inr example_path \<and>
   ext_Popen silent_jupyter_world version_check
     (trace initial_state @ [Call_resource_filename notebook_package notebook_resource]) = Inr [] \<and>
   launch_example_notebook silent_jupyter_world initial_state =
     (Inr (),
      initial_state\<lparr>trace := [Call_resource_filename notebook_package notebook_resource,
                              Call_Popen version_check]\<rparr>) \<and>
   length (filter is_Popen (new_events (launch_example_notebook example_world) initial_state)) = 2"
proof -
  have h: "ext_resource_filename silent_jupyter_world notebook_package notebook_resource
             (trace initial_state) = Inr example_path \<and>
           ext_Popen silent_jupyter_world version_check
             (trace initial_state @ [Call_resource_filename notebook_package notebook_resource])
             = Inr []"
    by (simp add: silent_jupyter_world_def example_world_answers)
  from launch_example_notebook_falsy_output [of silent_jupyter_world initial_state example_path]
       launch_example_notebook_falsy_output [of example_world initial_state example_path]
       h
  show ?thesis
    by (simp add: example_world_answers initial_state_def)
qed

subsection \<open>Exceptions\<close>

text \<open>Every outside call that raises during one of the functions, against what the
  function itself then does.\<close>

lemma launch_example_notebook_raised:
  "list_all (\<lambda>r. missing_executable r \<or> fst (launch_example_notebook w s) = Inl (snd r))
     (new_raised (launch_example_notebook w) s)"
  by (simp add: launch_example_notebook_cases new_raised_def split: sum.splits)

lemma launch_example_notebook_returns:
  "(fst (launch_example_notebook w s) = Inr ()) =
     list_all missing_executable (new_raised (launch_example_notebook w) s)"
  by (simp add: launch_example_notebook_cases new_raised_def split: sum.splits)

lemma launch_example_notebook_logged:
  "length (filter is_Logger_error (new_events (launch_example_notebook w) s)) =
     length (filter missing_executable (new_raised (launch_example_notebook w) s))"
  by (simp add: launch_example_notebook_cases new_raised_def new_events_def split: sum.splits)

lemma parse_args_raised:
  "list_all (\<lambda>r. fst (parse_args w argv s) = Inl (snd r)) (new_raised (parse_args w argv) s)"
  by (cases "parser_parse_args w (drop 1 argv)")
     (simp_all add: parse_args_Inl parse_args_Inr new_raised_def)

lemma win_from_args_raised:
  "list_all (\<lambda>r. fst (win_from_args w a s) = Inl (snd r)) (new_raised (win_from_args w a) s)"
  by (simp add: win_from_args_def call_defs new_raised_def exec_defs split: sum.splits)

lemma quick_launch_raised:
  "list_all (\<lambda>r. fst (quick_launch w metadata blk lz s) = Inl (snd r))
     (new_raised (quick_launch w metadata blk lz) s)"
  by (simp add: quick_launch_def call_defs new_raised_def exec_defs split: sum.splits)

lemma main_raised:
  "list_all (\<lambda>r. missing_executable r \<or> fst (main w argv s) = Inl (snd r))
     (new_raised (main w argv) s)"
proof (cases "parser_parse_args w (drop 1 argv)")
  case (Inl e)
  then show ?thesis
    by (simp add: main_def py_bind_def parse_args_Inl new_raised_def)
next
  case (Inr a)
  define s1 where "s1 = snd (parse_args w argv s)"
  have p: "parse_args w argv s = (Inr a, s1)" and r: "raised s1 = raised s"
    by (simp_all add: s1_def parse_args_Inr [OF Inr])
  show ?thesis
  proof (cases "launch_example_notebook_arg a")
    case True
    have "main w argv s = launch_example_notebook w s1"
      using True by (simp add: main_parsed [OF p])
    with launch_example_notebook_raised [of w s1] r show ?thesis
      by (simp add: new_raised_def)
  next
    case False
    then show ?thesis
      using r
      by (simp add: main_parsed [OF p] win_from_args_def call_defs exec_defs new_raised_def
          split: sum.splits)
  qed
qed

text \<open>
  \<^bold>\<open>Claim C2\<close>, as the specification states it, says that the module has a single
  \<^verbatim>\<open>try/except\<close>, around the version check. The code has a second one, around the call
  that starts the notebook server (lines 165 to 169). In a world where the version check
  succeeds and that second subprocess call raises \<^verbatim>\<open>FileNotFoundError\<close>,
  \<open>launch_example_notebook\<close> does not raise: it logs ``Unable to locate the example
  notebook'' and returns.
\<close>

theorem launch_example_notebook_second_handler:
  "ext_Popen missing_notebook_world (run_notebook example_path)
     [Call_resource_filename notebook_package notebook_resource, Call_Popen version_check]
     = Inl FileNotFoundError \<and>
   launch_example_notebook missing_notebook_world initial_state =
     (Inr (),
      initial_state
        \<lparr>trace :=
           [Call_resource_filename notebook_package notebook_resource,
            Call_Popen version_check,
            Call_Popen (run_notebook example_path),
            Logger_error (unable_to_locate example_path)],
         raised := [(Call_Popen (run_notebook example_path), FileNotFoundError)]\<rparr>)"
  by (simp add: launch_example_notebook_cases missing_notebook_world_def example_world_def
      initial_state_def notebook_package_def notebook_resource_def version_check_def
      run_notebook_def example_path_def)

text \<open>
  \<^bold>\<open>Claim C2, amended.\<close> The failure handling of the module is the two \<^verbatim>\<open>try/except\<close>
  blocks of \<open>launch_example_notebook\<close>, one around each of its two subprocess calls, each
  catching \<^verbatim>\<open>FileNotFoundError\<close> and logging an error. In \<open>launch_example_notebook\<close>, an
  outside call that raises is either a subprocess call raising \<^verbatim>\<open>FileNotFoundError\<close> or
  its exception is the one the function raises; the function returns normally exactly
  when every call that raised is of the first kind; and it logs one error for each of
  them. In \<open>parse_args\<close>, \<open>win_from_args\<close> and \<open>quick_launch\<close> every exception of an
  outside call is raised by the function, and \<open>main\<close> catches nothing beyond what
  \<open>launch_example_notebook\<close> catches.
\<close>

theorem module_exception_handling:
  "list_all (\<lambda>r. missing_executable r \<or> fst (launch_example_notebook w s) = Inl (snd r))
     (new_raised (launch_example_notebook w) s) \<and>
   (fst (launch_example_notebook w s) = Inr ()) =
     list_all missing_executable (new_raised (launch_example_notebook w) s) \<and>
   length (filter is_Logger_error (new_events (launch_example_notebook w) s)) =
     length (filter missing_executable (new_raised (launch_example_notebook w) s)) \<and>
   list_all (\<lambda>r. fst (parse_args w argv s) = Inl (snd r)) (new_raised (parse_args w argv) s) \<and>
   list_all (\<lambda>r. fst (win_from_args w a s) = Inl (snd r)) (new_raised (win_from_args w a) s) \<and>
   list_all (\<lambda>r. fst (quick_launch w metadata blk lz s) = Inl (snd r))
     (new_raised (quick_launch w metadata blk lz) s) \<and>
   list_all (\<lambda>r. missing_executable r \<or> fst (main w argv s) = Inl (snd r))
     (new_raised (main w argv) s)"
  by (intro conjI launch_example_notebook_raised launch_example_notebook_returns
      launch_example_notebook_logged parse_args_raised win_from_args_raised
      quick_launch_raised main_raised)

theorem module_exception_handling_witness:
  "new_raised (launch_example_notebook jupyter_missing_world) initial_state =
     [(Call_Popen version_check, FileNotFoundError)] \<and>
   fst (launch_example_notebook jupyter_missing_world initial_state) = Inr () \<and>
   filter is_Logger_error (new_events (launch_example_notebook jupyter_missing_world) initial_state) =
     [Logger_error unable_to_verify]"
proof -
  have h: "new_raised (launch_example_notebook jupyter_missing_world) initial_state =
             [(Call_Popen version_check, FileNotFoundError)]"
    by (simp add: launch_example_notebook_cases jupyter_missing_world_def example_world_def
        initial_state_def new_raised_def)
  have l: "new_events (launch_example_notebook jupyter_missing_world) initial_state =
             [Call_resource_filename notebook_package notebook_resource,
              Call_Popen version_check, Logger_error unable_to_verify]"
    by (simp add: launch_example_notebook_cases jupyter_missing_world_def example_world_def
        initial_state_def new_events_def)
  from module_exception_handling [of jupyter_missing_world initial_state] h l show ?thesis
    by simp
qed

subsection \<open>\<open>quick_launch\<close>\<close>

text \<open>
  \<^bold>\<open>Claim C1.\<close> \<open>quick_launch(metadata, blk, lazy)\<close> reaches the data and visualization
  layer through one fixed sequence of calls. When all four return, it has called
  \<^verbatim>\<open>load_dataset(metadata, blk, lazy=lazy)\<close>, then
  \<^verbatim>\<open>EphyviewerConfigurator(metadata, blk', lazy=lazy)\<close> with the block \<open>blk'\<close> that
  \<^verbatim>\<open>load_dataset\<close> returned, then \<^verbatim>\<open>show_all()\<close> and then \<^verbatim>\<open>launch_ephyviewer()\<close> on
  the configurator that was constructed, in that order, and nothing else; the logging
  levels and the earlier trace are untouched. In every run, also one in which a call
  raises, the calls made are an initial part of that sequence, so no other call is ever
  made and the order is never another.
\<close>

theorem quick_launch_calls:
  "(\<forall>blk' config.
      ext_load_dataset w metadata blk lz (trace s) = Inr blk' \<and>
      ext_EphyviewerConfigurator w metadata blk' lz
        (trace s @ [Call_load_dataset metadata blk lz]) = Inr config \<and>
      ext_show_all w config
        (trace s @ [Call_load_dataset metadata blk lz,
                    Call_EphyviewerConfigurator metadata blk' lz]) = Inr () \<and>
      ext_launch_ephyviewer w config
        (trace s @ [Call_load_dataset metadata blk lz,
                    Call_EphyviewerConfigurator metadata blk' lz,
                    Call_show_all config]) = Inr ()
      \<longrightarrow>
      quick_launch w metadata blk lz s =
        (Inr (),
         s\<lparr>trace := trace s @
              [Call_load_dataset metadata blk lz,
               Call_EphyviewerConfigurator metadata blk' lz,
               Call_show_all config,
               Call_launch_ephyviewer config]\<rparr>)) \<and>
   (\<exists>blk' config.
      prefix (new_events (quick_launch w metadata blk lz) s)
        [Call_load_dataset metadata blk lz,
         Call_EphyviewerConfigurator metadata blk' lz,
         Call_show_all config,
         Call_launch_ephyviewer config])"
proof (intro conjI allI impI)
  fix blk' config
  assume "ext_load_dataset w metadata blk lz (trace s) = Inr blk' \<and>
      ext_EphyviewerConfigurator w metadata blk' lz
        (trace s @ [Call_load_dataset metadata blk lz]) = Inr config \<and>
      ext_show_all w config
        (trace s @ [Call_load_dataset metadata blk lz,
                    Call_EphyviewerConfigurator metadata blk' lz]) = Inr () \<and>
      ext_launch_ephyviewer w config
        (trace s @ [Call_load_dataset metadata blk lz,
                    Call_EphyviewerConfigurator metadata blk' lz,
                    Call_show_all config]) = Inr ()"
  then show "quick_launch w metadata blk lz s =
        (Inr (),
         s\<lparr>trace := trace s @
              [Call_load_dataset metadata blk lz,
               Call_EphyviewerConfigurator metadata blk' lz,
               Call_show_all config,
               Call_launch_ephyviewer config]\<rparr>)"
    by (simp add: quick_launch_def call_defs exec_defs)
next
  show "\<exists>blk' config.
      prefix (new_events (quick_launch w metadata blk lz) s)
        [Call_load_dataset metadata blk lz,
         Call_EphyviewerConfigurator metadata blk' lz,
         Call_show_all config,
         Call_launch_ephyviewer config]"
    by (simp add: quick_launch_def call_defs exec_defs new_events_def split: sum.splits)
qed

theorem quick_launch_calls_witness:
  "ext_load_dataset example_world 7 8 True (trace initial_state) = Inr 5 \<and>
   ext_EphyviewerConfigurator example_world 7 5 True
     (trace initial_state @ [Call_load_dataset 7 8 True]) = Inr 6 \<and>
   quick_launch example_world 7 8 True initial_state =
     (Inr (),
      initial_state\<lparr>trace := [Call_load_dataset 7 8 True,
                              Call_EphyviewerConfigurator 7 5 True,
                              Call_show_all 6,
                              Call_launch_ephyviewer 6]\<rparr>)"
proof -
  have h: "ext_load_dataset example_world 7 8 True (trace initial_state) = Inr 5 \<and>
      ext_EphyviewerConfigurator example_world 7 5 True
        (trace initial_state @ [Call_load_dataset 7 8 True]) = Inr 6 \<and>
      ext_show_all example_world 6
        (trace initial_state @ [Call_load_dataset 7 8 True,
                    Call_EphyviewerConfigurator 7 5 True]) = Inr () \<and>
      ext_launch_ephyviewer example_world 6
        (trace initial_state @ [Call_load_dataset 7 8 True,
                    Call_EphyviewerConfigurator 7 5 True,
                    Call_show_all 6]) = Inr ()"
    by (simp add: example_world_answers)
  from quick_launch_calls [of example_world 7 8 True initial_state] h
  have "quick_launch example_world 7 8 True initial_state =
        (Inr (),
         initial_state\<lparr>trace := trace initial_state @
              [Call_load_dataset 7 8 True,
               Call_EphyviewerConfigurator 7 5 True,
               Call_show_all 6,
               Call_launch_ephyviewer 6]\<rparr>)"
    by blast
  with h show ?thesis
    by (simp add: initial_state_def)
qed

subsection \<open>\<open>main\<close>\<close>

lemma parser_parse_args_notebook:
  "parser_parse_args example_world [''--launch-example-notebook'']
     = Inr (defaults\<lparr>launch_example_notebook_arg := True\<rparr>)"
  by (simp add: parser_parse_args_def parse_loop.simps parse_step_def consume_positionals_def
      positionals_def match_optional_positional_def get_values_def defaults_def
      parse_optional_def option_string_actions_def optionals_def consume_optional_def
      match_following_def nargs_def take_action_def example_world_def)

lemma launch_example_notebook_no_gui:
  "\<not> list_ex is_gui_event (new_events (launch_example_notebook w) s)"
  by (simp add: launch_example_notebook_cases new_events_def split: sum.splits)

lemma main_gui_no_notebook:
  assumes "parse_args w argv s = (Inr a, s1)" and "\<not> launch_example_notebook_arg a"
  shows "take 2 (drop (length (trace s1)) (trace (snd (main w argv s)))) =
           [Logger_info loading_message, Call_mkQApp] \<and>
         \<not> list_ex is_notebook_event (drop (length (trace s1)) (trace (snd (main w argv s))))"
  using assms(2)
  by (simp add: main_parsed [OF assms(1)] win_from_args_def call_defs exec_defs
      split: sum.splits)

text \<open>
  \<^bold>\<open>Claim C4.\<close> \<open>main\<close> dispatches on the attribute \<^verbatim>\<open>launch_example_notebook\<close> of the
  namespace that \<open>parse_args\<close> returns. When it is true, \<open>main\<close> is
  \<open>launch_example_notebook\<close> run from the state \<open>parse_args\<close> left, and none of the calls it
  then makes creates the Qt application, the splash screen or the main window, shows a
  widget, or enters the event loop. When it is false, \<open>main\<close> logs ``Loading user
  interface'' and calls \<^verbatim>\<open>mkQApp\<close>, and none of the calls it then makes is a call of
  \<open>launch_example_notebook\<close> (the resource lookup or a subprocess).
\<close>

theorem main_dispatch:
  assumes "parse_args w argv s = (Inr a, s1)"
  shows "if launch_example_notebook_arg a
         then main w argv s = launch_example_notebook w s1 \<and>
              \<not> list_ex is_gui_event (drop (length (trace s1)) (trace (snd (main w argv s))))
         else take 2 (drop (length (trace s1)) (trace (snd (main w argv s)))) =
                [Logger_info loading_message, Call_mkQApp] \<and>
              \<not> list_ex is_notebook_event
                  (drop (length (trace s1)) (trace (snd (main w argv s))))"
proof (cases "launch_example_notebook_arg a")
  case True
  have "main w argv s = launch_example_notebook w s1"
    using True by (simp add: main_parsed [OF assms])
  with True launch_example_notebook_no_gui [of w s1] show ?thesis
    by (simp add: new_events_def)
next
  case False
  with main_gui_no_notebook [OF assms] show ?thesis
    by simp
qed

theorem main_dispatch_witness:
  "parse_args example_world [''neurotic'', ''--launch-example-notebook''] initial_state =
     (Inr (defaults\<lparr>launch_example_notebook_arg := True\<rparr>),
      initial_state\<lparr>trace := [Call_parse_args [''--launch-example-notebook'']],
                    parent_level := 30, libav_level := 50\<rparr>) \<and>
   main example_world [''neurotic'', ''--launch-example-notebook''] initial_state =
     launch_example_notebook example_world
       (initial_state\<lparr>trace := [Call_parse_args [''--launch-example-notebook'']],
                     parent_level := 30, libav_level := 50\<rparr>) \<and>
   parse_args example_world [''neurotic''] initial_state =
     (Inr defaults,
      initial_state\<lparr>trace := [Call_parse_args []], parent_level := 30, libav_level := 50\<rparr>) \<and>
   take 2 (drop 1 (trace (snd (main example_world [''neurotic''] initial_state)))) =
     [Logger_info loading_message, Call_mkQApp]"
proof -
  have l: "default_log_level example_world = 30"
    by (simp add: example_world_def)
  have pn: "parser_parse_args example_world (drop 1 [''neurotic'', ''--launch-example-notebook''])
              = Inr (defaults\<lparr>launch_example_notebook_arg := True\<rparr>)"
    by (simp add: parser_parse_args_notebook)
  have pg: "parser_parse_args example_world (drop 1 [''neurotic'']) = Inr defaults"
    by (simp add: parser_parse_args_Nil)
  have n: "parse_args example_world [''neurotic'', ''--launch-example-notebook''] initial_state =
     (Inr (defaults\<lparr>launch_example_notebook_arg := True\<rparr>),
      initial_state\<lparr>trace := [Call_parse_args [''--launch-example-notebook'']],
                    parent_level := 30, libav_level := 50\<rparr>)"
    by (simp add: parse_args_Inr [OF pn] l defaults_def initial_state_def CRITICAL_def)
  have g: "parse_args example_world [''neurotic''] initial_state =
     (Inr defaults,
      initial_state\<lparr>trace := [Call_parse_args []], parent_level := 30, libav_level := 50\<rparr>)"
    by (simp add: parse_args_Inr [OF pg] l defaults_def initial_state_def CRITICAL_def)
  from main_dispatch [OF n] main_dispatch [OF g] n g show ?thesis
    by (simp add: defaults_def initial_state_def)
qed

text \<open>
  \<^bold>\<open>Claim C5.\<close> In GUI mode the steps of \<open>main\<close> after \<open>parse_args\<close> come in one fixed
  order: the loading message, \<^verbatim>\<open>mkQApp()\<close>, the pixmap and the splash screen made from
  it, \<^verbatim>\<open>splash.show()\<close>, then \<^verbatim>\<open>MainWindow\<close> constructed from the parsed arguments,
  \<^verbatim>\<open>win.show()\<close>, \<^verbatim>\<open>splash.finish(win)\<close>, the message ``Ready'', and last
  \<^verbatim>\<open>app.exec_()\<close>. In every run the calls made are an initial part of this sequence; when
  \<open>main\<close> returns they are the whole sequence, and the application, pixmap, splash screen
  and window in it are the objects that the four constructors returned.
\<close>

theorem main_gui_order:
  assumes "parse_args w argv s = (Inr a, s1)" and "\<not> launch_example_notebook_arg a"
  shows "\<exists>app pixmap splash win.
     let steps =
       [Logger_info loading_message, Call_mkQApp, Call_QPixmap logo,
        Call_QSplashScreen pixmap, Call_show splash,
        Call_MainWindow
          \<lparr>kw_file = file a, kw_initial_selection = dataset a, kw_lazy = lazy a,
           kw_theme = theme a, kw_ui_scale = ui_scale a,
           kw_support_increased_line_width = thick_traces a,
           kw_show_datetime = show_datetime a\<rparr>,
        Call_show win, Call_finish splash win, Logger_info ready_message, Call_exec app]
     in prefix (drop (length (trace s1)) (trace (snd (main w argv s)))) steps \<and>
        (fst (main w argv s) = Inr () \<longrightarrow>
           drop (length (trace s1)) (trace (snd (main w argv s))) = steps \<and>
           ext_mkQApp w (trace s1 @ take 1 steps) = Inr app \<and>
           ext_QPixmap w logo (trace s1 @ take 2 steps) = Inr pixmap \<and>
           ext_QSplashScreen w pixmap (trace s1 @ take 3 steps) = Inr splash \<and>
           ext_MainWindow w
             \<lparr>kw_file = file a, kw_initial_selection = dataset a, kw_lazy = lazy a,
              kw_theme = theme a, kw_ui_scale = ui_scale a,
              kw_support_increased_line_width = thick_traces a,
              kw_show_datetime = show_datetime a\<rparr> (trace s1 @ take 5 steps) = Inr win)"
  using assms(2)
  by (simp add: main_parsed [OF assms(1)] win_from_args_def call_defs exec_defs Let_def
      split: sum.splits)

theorem main_gui_order_witness:
  "parse_args example_world [''neurotic''] initial_state =
     (Inr defaults,
      initial_state\<lparr>trace := [Call_parse_args []], parent_level := 30, libav_level := 50\<rparr>) \<and>
   \<not> launch_example_notebook_arg defaults \<and>
   main example_world [''neurotic''] initial_state =
     (Inr (),
      initial_state
        \<lparr>trace :=
           [Call_parse_args [],
            Logger_info loading_message, Call_mkQApp, Call_QPixmap logo,
            Call_QSplashScreen 2, Call_show 3,
            Call_MainWindow
              \<lparr>kw_file = PyNone, kw_initial_selection = PyNone, kw_lazy = True,
               kw_theme = PyStr ''light'', kw_ui_scale = PyStr ''medium'',
               kw_support_increased_line_width = False, kw_show_datetime = False\<rparr>,
            Call_show 4, Call_finish 3 4, Logger_info ready_message, Call_exec 1],
         parent_level := 30, libav_level := 50\<rparr>)"
proof -
  have l: "default_log_level example_world = 30"
    by (simp add: example_world_def)
  have pg: "parser_parse_args example_world (drop 1 [''neurotic'']) = Inr defaults"
    by (simp add: parser_parse_args_Nil)
  have g: "parse_args example_world [''neurotic''] initial_state =
     (Inr defaults,
      initial_state\<lparr>trace := [Call_parse_args []], parent_level := 30, libav_level := 50\<rparr>)"
    by (simp add: parse_args_Inr [OF pg] l defaults_def initial_state_def CRITICAL_def)
  have d: "\<not> launch_example_notebook_arg defaults"
    by (simp add: defaults_def)
  have m: "main example_world [''neurotic''] initial_state =
     (Inr (),
      initial_state
        \<lparr>trace :=
           [Call_parse_args [],
            Logger_info loading_message, Call_mkQApp, Call_QPixmap logo,
            Call_QSplashScreen 2, Call_show 3,
            Call_MainWindow
              \<lparr>kw_file = PyNone, kw_initial_selection = PyNone, kw_lazy = True,
               kw_theme = PyStr ''light'', kw_ui_scale = PyStr ''medium'',
               kw_support_increased_line_width = False, kw_show_datetime = False\<rparr>,
            Call_show 4, Call_finish 3 4, Logger_info ready_message, Call_exec 1],
         parent_level := 30, libav_level := 50\<rparr>)"
    using d main_parsed [OF g]
    by (simp add: win_from_args_def call_defs exec_defs example_world_answers defaults_def
        initial_state_def)
  from main_gui_order [OF g d] g d m show ?thesis
    by simp
qed

end
